theory Spec2Isabelle
  imports Main
begin

section \<open>JavaScript values\<close>

text \<open>
  The values the handlers see are those of a parsed JSON request body and of
  the documents the store hands back, together with \<open>undefined\<close>, the result
  of reading a property that is not there.

  A number is held as the text JavaScript prints for it (\<open>''1.5''\<close>, \<open>''0''\<close>):
  the program only ever tests a number for truthiness and converts it to a
  string, and both are read off that text. A character stands for the code
  unit of the same number, so the model covers text in the range 0..255.
\<close>

datatype jsval =
    JUndefined
  | JNull
  | JBool bool
  | JNum string
  | JStr string
  | JArr "jsval list"
  | JObj "(string \<times> jsval) list"

datatype js_error = TypeError

text \<open>
  Own properties of an object are an association list; \<open>k in o\<close> and \<open>o.k\<close>
  for the property names the program uses (\<open>id\<close>, \<open>title\<close>, \<open>content\<close>,
  \<open>author\<close>, \<open>firstName\<close>, \<open>lastName\<close>), none of which a built-in prototype
  defines.
\<close>

definition has_own :: "(string \<times> jsval) list \<Rightarrow> string \<Rightarrow> bool" where
  "has_own props k = (map_of props k \<noteq> None)"

definition own :: "(string \<times> jsval) list \<Rightarrow> string \<Rightarrow> jsval" where
  "own props k = (case map_of props k of None \<Rightarrow> JUndefined | Some v \<Rightarrow> v)"

text \<open>
  Property read \<open>v.k\<close> on any value: reading from \<open>null\<close> or \<open>undefined\<close>
  throws a TypeError; reading one of the names above from a primitive or an
  array yields \<open>undefined\<close>.
\<close>

fun get_prop :: "jsval \<Rightarrow> string \<Rightarrow> js_error + jsval" where
  "get_prop JUndefined k = Inl TypeError"
| "get_prop JNull k = Inl TypeError"
| "get_prop (JObj props) k = Inr (own props k)"
| "get_prop v k = Inr JUndefined"

text \<open>Truthiness, as \<open>&&\<close> and \<open>!\<close> test it.\<close>

fun truthy :: "jsval \<Rightarrow> bool" where
  "truthy JUndefined = False"
| "truthy JNull = False"
| "truthy (JBool b) = b"
| "truthy (JNum n) = (n \<noteq> ''0'')"
| "truthy (JStr s) = (s \<noteq> [])"
| "truthy (JArr xs) = True"
| "truthy (JObj props) = True"

text \<open>
  \<open>s === v\<close> with a string on the left: true only for the same string (no
  conversion takes place, and an object is never equal to a string).
\<close>

definition strict_eq_str :: "string \<Rightarrow> jsval \<Rightarrow> bool" where
  "strict_eq_str s v = (v = JStr s)"

text \<open>
  The conversion a template literal applies to \<open>${v}\<close>. An array is joined
  with commas, its \<open>null\<close> and \<open>undefined\<close> elements printing as nothing. A plain
  object prints as \<open>[object Object]\<close> through the inherited \<open>toString\<close>; when
  the object has an own property named \<open>toString\<close> (from JSON it is never a
  function) the inherited \<open>valueOf\<close> returns the object itself and the
  conversion throws a TypeError.
\<close>

fun ToString :: "jsval \<Rightarrow> js_error + string"
  and join :: "jsval list \<Rightarrow> js_error + string" where
  "ToString JUndefined = Inr ''undefined''"
| "ToString JNull = Inr ''null''"
| "ToString (JBool b) = Inr (if b then ''true'' else ''false'')"
| "ToString (JNum n) = Inr n"
| "ToString (JStr s) = Inr s"
| "ToString (JArr xs) = join xs"
| "ToString (JObj props) =
     (if has_own props ''toString'' then Inl TypeError else Inr ''[object Object]'')"
| "join [] = Inr []"
| "join (x # xs) =
     (case (if x = JUndefined \<or> x = JNull then Inr [] else ToString x) of
        Inl e \<Rightarrow> Inl e
      | Inr s \<Rightarrow>
          (if xs = [] then Inr s
           else (case join xs of Inl e \<Rightarrow> Inl e | Inr t \<Rightarrow> Inr (s @ '','' @ t))))"

text \<open>
  \<open>String.prototype.trim\<close>: white space and line terminators are removed at
  both ends (tab, LF, VT, FF, CR, space and the no-break space, in the range
  of code units modelled).
\<close>

definition is_ws :: "char \<Rightarrow> bool" where
  "is_ws c = (of_char c \<in> {9, 10, 11, 12, 13, 32, 160 :: nat})"

definition trim :: "string \<Rightarrow> string" where
  "trim s = rev (dropWhile is_ws (rev (dropWhile is_ws s)))"

section \<open>models.js: the document and its public view\<close>

text \<open>
  A document of the \<open>BlogPosts\<close> model: the store's \<open>_id\<close> and the four paths
  of \<open>blogpostSchema\<close>. \<open>created\<close> is held as the value \<open>res.json\<close> prints.
\<close>

record blogpost =
  doc_id :: string
  title :: jsval
  content :: jsval
  author :: jsval
  created :: jsval

text \<open>
  \<open>blogpostSchema\<close> as \<open>models.js\<close> declares it: for each path its type,
  whether it is required and whether it has a default.
\<close>

datatype schema_type = SchemaString | SchemaObject | SchemaDate

record schema_path =
  path_type :: schema_type
  required :: bool
  has_default :: bool

definition blogpostSchema :: "(string \<times> schema_path) list" where
  "blogpostSchema =
     [(''title'', \<lparr>path_type = SchemaString, required = True, has_default = False\<rparr>),
      (''content'', \<lparr>path_type = SchemaString, required = True, has_default = False\<rparr>),
      (''author'', \<lparr>path_type = SchemaObject, required = True, has_default = False\<rparr>),
      (''created'', \<lparr>path_type = SchemaDate, required = False, has_default = True\<rparr>)]"

definition path_value :: "blogpost \<Rightarrow> string \<Rightarrow> jsval" where
  "path_value d k =
     (if k = ''title'' then title d
      else if k = ''content'' then content d
      else if k = ''author'' then author d
      else if k = ''created'' then created d
      else JUndefined)"

text \<open>
  The virtual \<open>authorString\<close>:
  \<^verbatim>\<open>`${this.author.firstName} ${this.author.lastName}`.trim()\<close>
\<close>

definition authorString :: "blogpost \<Rightarrow> js_error + string" where
  "authorString d =
     (case get_prop (author d) ''firstName'' of
        Inl e \<Rightarrow> Inl e
      | Inr f \<Rightarrow>
          (case ToString f of
             Inl e \<Rightarrow> Inl e
           | Inr fs \<Rightarrow>
               (case get_prop (author d) ''lastName'' of
                  Inl e \<Rightarrow> Inl e
                | Inr l \<Rightarrow>
                    (case ToString l of
                       Inl e \<Rightarrow> Inl e
                     | Inr ls \<Rightarrow> Inr (trim (fs @ '' '' @ ls))))))"

definition serialize :: "blogpost \<Rightarrow> js_error + jsval" where
  "serialize d =
     (case authorString d of
        Inl e \<Rightarrow> Inl e
      | Inr a \<Rightarrow>
          Inr (JObj [(''id'', JStr (doc_id d)),
                     (''title'', title d),
                     (''content'', content d),
                     (''author'', JStr a),
                     (''created'', created d)]))"

section \<open>server.js: requests, responses and the store interface\<close>

text \<open>
  A request as the handlers read it: \<open>req.params.id\<close> and \<open>req.body\<close>. The
  body is the container \<open>express.json()\<close> has parsed, given by its own
  properties.
\<close>

record request =
  params_id :: string
  body :: "(string \<times> jsval) list"

text \<open>
  What a handler sends: \<open>res.status(n).end()\<close>, \<open>res.status(n).send(text)\<close> or
  \<open>res.status(n).json(value)\<close> (\<open>res.json\<close> alone sends status 200).
\<close>

datatype payload = Empty | Text string | Json jsval

record response =
  status :: nat
  sent :: payload

text \<open>
  The calls the handlers make on the \<open>BlogPosts\<close> model, and what the promise
  of such a call settles to: a rejection with the store's error, or a
  resolution with a list of documents (\<open>find\<close>) or with a document or \<open>null\<close>
  (the other calls).
\<close>

datatype store_call =
    Find_limit nat
  | FindById string
  | Create "(string \<times> jsval) list"
  | FindByIdAndUpdate string "(string \<times> jsval) list"
  | FindByIdAndRemove string

datatype store_error = StoreError string | CastError | ValidationError

datatype reply =
    Rejected store_error
  | Docs "blogpost list"
  | Doc "blogpost option"

text \<open>
  A handler either responds at once, or makes one store call and responds
  from the \<open>.then\<close>/\<open>.catch\<close> chain once the call has settled, or throws
  before it has responded (the framework then answers in its place). What
  the handlers write to the console is left out: no response depends on it.
\<close>

datatype outcome =
    Respond response
  | Await store_call "reply \<Rightarrow> response"
  | Throws js_error

definition internal_server_error :: response where
  "internal_server_error =
     \<lparr>status = 500, sent = Json (JObj [(''message'', JStr ''Internal server error'')])\<rparr>"

subsection \<open>GET /blog-posts\<close>

text \<open>
  \<open>blogposts.map(blogpost => blogpost.serialize())\<close>: the first document whose
  \<open>serialize\<close> throws aborts the map.
\<close>

fun serialize_all :: "blogpost list \<Rightarrow> js_error + jsval list" where
  "serialize_all [] = Inr []"
| "serialize_all (d # ds) =
     (case serialize d of
        Inl e \<Rightarrow> Inl e
      | Inr v \<Rightarrow> (case serialize_all ds of Inl e \<Rightarrow> Inl e | Inr vs \<Rightarrow> Inr (v # vs)))"

definition get_blog_posts :: "request \<Rightarrow> outcome" where
  "get_blog_posts req =
     Await (Find_limit 10)
       (\<lambda>r. case r of
          Docs blogposts \<Rightarrow>
            (case serialize_all blogposts of
               Inr views \<Rightarrow> \<lparr>status = 200, sent = Json (JObj [(''blogposts'', JArr views)])\<rparr>
             | Inl e \<Rightarrow> internal_server_error)
        | Doc blogpost \<Rightarrow> internal_server_error
        | Rejected err \<Rightarrow> internal_server_error)"

subsection \<open>GET /blog-posts/:id\<close>

text \<open>
  \<open>.then(blogpost => res.json(blogpost.serialize()))\<close>: on \<open>null\<close> the method
  call throws inside the chain, and the \<open>.catch\<close> answers.
\<close>

definition get_blog_posts_id :: "request \<Rightarrow> outcome" where
  "get_blog_posts_id req =
     Await (FindById (params_id req))
       (\<lambda>r. case r of
          Doc (Some blogpost) \<Rightarrow>
            (case serialize blogpost of
               Inr view \<Rightarrow> \<lparr>status = 200, sent = Json view\<rparr>
             | Inl e \<Rightarrow> internal_server_error)
        | Doc None \<Rightarrow> internal_server_error
        | Docs blogposts \<Rightarrow> internal_server_error
        | Rejected err \<Rightarrow> internal_server_error)"

subsection \<open>POST /blog-posts\<close>

definition requiredFields :: "string list" where
  "requiredFields = [''title'', ''content'', ''author'']"

text \<open>The \<open>for\<close> loop over \<open>requiredFields\<close>, returning at the first field not in the body.\<close>

fun check_required :: "string list \<Rightarrow> (string \<times> jsval) list \<Rightarrow> response option" where
  "check_required [] b = None"
| "check_required (field # rest) b =
     (if \<not> has_own b field
      then Some \<lparr>status = 400, sent = Text (''Missing `'' @ field @ ''` in request body'')\<rparr>
      else check_required rest b)"

definition post_blog_posts :: "request \<Rightarrow> outcome" where
  "post_blog_posts req =
     (case check_required requiredFields (body req) of
        Some res \<Rightarrow> Respond res
      | None \<Rightarrow>
          Await (Create [(''title'', own (body req) ''title''),
                         (''content'', own (body req) ''content''),
                         (''author'', own (body req) ''author'')])
            (\<lambda>r. case r of
               Doc (Some blogpost) \<Rightarrow>
                 (case serialize blogpost of
                    Inr view \<Rightarrow> \<lparr>status = 201, sent = Json view\<rparr>
                  | Inl e \<Rightarrow> internal_server_error)
             | Doc None \<Rightarrow> internal_server_error
             | Docs blogposts \<Rightarrow> internal_server_error
             | Rejected err \<Rightarrow> internal_server_error))"

subsection \<open>PUT /blog-posts/:id\<close>

definition updateableFields :: "string list" where
  "updateableFields = [''title'', ''content'', ''author'']"

text \<open>The \<open>forEach\<close> that fills \<open>toUpdate\<close>, in the order the keys are added.\<close>

definition toUpdate :: "(string \<times> jsval) list \<Rightarrow> (string \<times> jsval) list" where
  "toUpdate b =
     foldl (\<lambda>acc field. if has_own b field then acc @ [(field, own b field)] else acc)
       [] updateableFields"

definition ids_match :: "request \<Rightarrow> bool" where
  "ids_match req =
     (truthy (JStr (params_id req)) \<and> truthy (own (body req) ''id'') \<and>
      strict_eq_str (params_id req) (own (body req) ''id''))"

definition put_blog_posts_id :: "request \<Rightarrow> outcome" where
  "put_blog_posts_id req =
     (if \<not> ids_match req then
        (case ToString (own (body req) ''id'') of
           Inl e \<Rightarrow> Throws e
         | Inr bid \<Rightarrow>
             Respond \<lparr>status = 400,
                      sent = Json (JObj [(''message'',
                        JStr (''Request path id ('' @ params_id req @
                              '') and request body id ('' @ bid @ '') must match''))])\<rparr>)
      else
        Await (FindByIdAndUpdate (params_id req) (toUpdate (body req)))
          (\<lambda>r. case r of
             Rejected err \<Rightarrow> internal_server_error
           | Docs blogposts \<Rightarrow> \<lparr>status = 204, sent = Empty\<rparr>
           | Doc blogpost \<Rightarrow> \<lparr>status = 204, sent = Empty\<rparr>))"

subsection \<open>DELETE /blog-posts/:id\<close>

definition delete_blog_posts_id :: "request \<Rightarrow> outcome" where
  "delete_blog_posts_id req =
     Await (FindByIdAndRemove (params_id req))
       (\<lambda>r. case r of
          Rejected err \<Rightarrow> internal_server_error
        | Docs blogposts \<Rightarrow> \<lparr>status = 204, sent = Empty\<rparr>
        | Doc blogpost \<Rightarrow> \<lparr>status = 204, sent = Empty\<rparr>)"

subsection \<open>Reading an outcome\<close>

text \<open>The store calls a handler makes, and its response once the call has settled.\<close>

fun store_calls :: "outcome \<Rightarrow> store_call list" where
  "store_calls (Respond res) = []"
| "store_calls (Await c k) = [c]"
| "store_calls (Throws e) = []"

fun response_to :: "outcome \<Rightarrow> reply \<Rightarrow> js_error + response" where
  "response_to (Respond res) r = Inr res"
| "response_to (Await c k) r = Inr (k r)"
| "response_to (Throws e) r = Inl e"

text \<open>
  A handler run against a store, the store being any function from a call
  and a state to a reply and a new state.
\<close>

fun run :: "(store_call \<Rightarrow> 'st \<Rightarrow> reply \<times> 'st) \<Rightarrow> outcome \<Rightarrow> 'st \<Rightarrow> (js_error + response) \<times> 'st" where
  "run store (Respond res) st = (Inr res, st)"
| "run store (Await c k) st = (case store c st of (r, st') \<Rightarrow> (Inr (k r), st'))"
| "run store (Throws e) st = (Inl e, st)"

subsection \<open>The route table\<close>

definition routes :: "(string \<times> string \<times> (request \<Rightarrow> outcome)) list" where
  "routes =
     [(''GET'', ''/blog-posts'', get_blog_posts),
      (''GET'', ''/blog-posts/:id'', get_blog_posts_id),
      (''POST'', ''/blog-posts'', post_blog_posts),
      (''PUT'', ''/blog-posts/:id'', put_blog_posts_id),
      (''DELETE'', ''/blog-posts/:id'', delete_blog_posts_id)]"

definition handlers :: "(request \<Rightarrow> outcome) list" where
  "handlers = map (\<lambda>(method, path, h). h) routes"

section \<open>The document store\<close>

text \<open>
  Modelled from the spec: the document store behind the \<open>BlogPosts\<close> model
  (Mongoose on MongoDB) is a library, not part of the sources. The spec
  lists its operations: find-with-limit, find-by-id, create,
  update-by-id-with-partial-set and delete-by-id, with ids and default
  timestamps assigned by the store. The collection is the list of documents
  in the store's natural order.

  What the sources cannot tell is a parameter: \<open>outage\<close> says which calls the
  store fails for a reason of its own, and with what error (a lost
  connection, an update whose values it cannot cast); \<open>new_doc\<close> builds the
  document of a \<open>create\<close> from the values it is given, with its id and its
  \<open>created\<close> time.
\<close>

record store_env =
  outage :: "store_call \<Rightarrow> store_error option"
  new_doc :: "(string \<times> jsval) list \<Rightarrow> blogpost list \<Rightarrow> blogpost"

text \<open>
  Modelled from the spec: a malformed id is a failure of the store. The ids
  the store can read are those of MongoDB, a string of 24 hexadecimal digits
  or of 12 characters; a call by id with any other string is rejected with a
  CastError before the collection is looked at.
\<close>

definition is_hex :: "char \<Rightarrow> bool" where
  "is_hex c = (c \<in> set ''0123456789abcdefABCDEF'')"

definition object_id :: "string \<Rightarrow> bool" where
  "object_id s = (length s = 12 \<or> (length s = 24 \<and> list_all is_hex s))"

definition cast_fault :: "store_call \<Rightarrow> store_error option" where
  "cast_fault c =
     (case c of
        Find_limit n \<Rightarrow> None
      | FindById i \<Rightarrow> (if object_id i then None else Some CastError)
      | Create props \<Rightarrow> None
      | FindByIdAndUpdate i upd \<Rightarrow> (if object_id i then None else Some CastError)
      | FindByIdAndRemove i \<Rightarrow> (if object_id i then None else Some CastError))"

text \<open>The error a call is rejected with before the store touches the collection, if any.\<close>

definition fault :: "store_env \<Rightarrow> store_call \<Rightarrow> store_error option" where
  "fault env c = (case outage env c of Some err \<Rightarrow> Some err | None \<Rightarrow> cast_fault c)"

text \<open>
  Modelled from the spec: what \<open>required: true\<close> of \<open>blogpostSchema\<close> asks of
  a document at its creation (the spec's data model: title and content
  required and non-empty at creation, author required). A required path of
  type String takes a string that is not empty; a required path of another
  type takes every value but \<open>null\<close> and \<open>undefined\<close>. The author path is of
  type Object, which holds values of every kind.
\<close>

fun non_empty_text :: "jsval \<Rightarrow> bool" where
  "non_empty_text (JStr s) = (s \<noteq> [])"
| "non_empty_text v = False"

fun required_ok :: "schema_type \<Rightarrow> jsval \<Rightarrow> bool" where
  "required_ok SchemaString v = non_empty_text v"
| "required_ok t v = (v \<noteq> JNull \<and> v \<noteq> JUndefined)"

definition validate :: "(string \<times> schema_path) list \<Rightarrow> blogpost \<Rightarrow> bool" where
  "validate schema d =
     list_all (\<lambda>(k, opts). if required opts then required_ok (path_type opts) (path_value d k)
                           else True) schema"

text \<open>
  Modelled from the spec: the partial update \<open>{ $set: toUpdate }\<close> of the
  store, which is not part of the sources. Every key of the update that is a
  path of \<open>blogpostSchema\<close> is written, in the order of the keys; other keys
  are dropped, and \<open>_id\<close> is not a path an update can write.
\<close>

definition set_path :: "string \<times> jsval \<Rightarrow> blogpost \<Rightarrow> blogpost" where
  "set_path kv d =
     (if fst kv = ''title'' then d\<lparr>title := snd kv\<rparr>
      else if fst kv = ''content'' then d\<lparr>content := snd kv\<rparr>
      else if fst kv = ''author'' then d\<lparr>author := snd kv\<rparr>
      else if fst kv = ''created'' then d\<lparr>created := snd kv\<rparr>
      else d)"

definition apply_set :: "(string \<times> jsval) list \<Rightarrow> blogpost \<Rightarrow> blogpost" where
  "apply_set upd d = fold set_path upd d"

text \<open>
  Modelled from the spec: update-by-id, delete-by-id and find-by-id of the
  store, which is not part of the sources. They act on the first document of
  the collection with the id, and on nothing when there is none.
\<close>

fun update_first :: "string \<Rightarrow> (blogpost \<Rightarrow> blogpost) \<Rightarrow> blogpost list \<Rightarrow> blogpost list" where
  "update_first i f [] = []"
| "update_first i f (d # ds) =
     (if doc_id d = i then f d # ds else d # update_first i f ds)"

fun remove_first :: "string \<Rightarrow> blogpost list \<Rightarrow> blogpost list" where
  "remove_first i [] = []"
| "remove_first i (d # ds) = (if doc_id d = i then ds else d # remove_first i ds)"

definition by_id :: "string \<Rightarrow> blogpost list \<Rightarrow> blogpost option" where
  "by_id i docs = find (\<lambda>d. doc_id d = i) docs"

text \<open>
  Modelled from the spec: one call on the store, which is not part of the
  sources. A call the store fails is rejected and changes nothing, and so
  is a \<open>create\<close> whose document the schema refuses; every other call
  resolves, a lookup that finds nothing with \<open>null\<close>. Update and delete
  resolve with the document as it was before the call.
\<close>

definition store_step :: "store_env \<Rightarrow> store_call \<Rightarrow> blogpost list \<Rightarrow> reply \<times> blogpost list" where
  "store_step env c docs =
     (case fault env c of
        Some err \<Rightarrow> (Rejected err, docs)
      | None \<Rightarrow>
          (case c of
             Find_limit n \<Rightarrow> (Docs (take n docs), docs)
           | FindById i \<Rightarrow> (Doc (by_id i docs), docs)
           | Create props \<Rightarrow>
               (let d = new_doc env props docs in
                if validate blogpostSchema d then (Doc (Some d), docs @ [d])
                else (Rejected ValidationError, docs))
           | FindByIdAndUpdate i upd \<Rightarrow>
               (Doc (by_id i docs), update_first i (apply_set upd) docs)
           | FindByIdAndRemove i \<Rightarrow> (Doc (by_id i docs), remove_first i docs)))"

section \<open>server.js: starting the server\<close>

text \<open>
  \<open>runServer\<close> runs inside two callbacks. The outcome of
  \<open>mongoose.connect\<close> (the \<open>err\<close> its callback receives) and of \<open>app.listen\<close>
  (the \<open>listening\<close> callback, or the \<open>error\<close> event with its error) are given
  by the environment. The process holds the store connection and the
  variable \<open>server\<close>; the trace lists what \<open>runServer\<close> has called.

  \<open>app.listen\<close> throws at once for a port that is not below 65536. The call
  stands in the callback of \<open>connect\<close> with no \<open>try\<close> around it: the exception
  leaves the callback, neither \<open>resolve\<close> nor \<open>reject\<close> nor
  \<open>mongoose.disconnect\<close> is called and \<open>server\<close> is not assigned, so the
  promise stays pending. On the \<open>error\<close> event \<open>mongoose.disconnect()\<close> is
  started and not awaited: the connection is closing when the promise is
  rejected.
\<close>

datatype start_error = StartError string

datatype promise = Resolved | RejectedWith start_error | Pending

datatype effect = Connect string | Listen nat | Disconnect

datatype connection = Closed | Open | Closing

record listener =
  port :: nat
  listening :: bool

record process =
  connection :: connection
  server :: "listener option"
  trace :: "effect list"

record start_env =
  connect_err :: "string \<Rightarrow> start_error option"
  listen_err :: "nat \<Rightarrow> start_error option"

definition runServer :: "start_env \<Rightarrow> string \<Rightarrow> nat \<Rightarrow> process \<Rightarrow> promise \<times> process" where
  "runServer env databaseUrl p proc =
     (let proc1 = proc\<lparr>trace := trace proc @ [Connect databaseUrl]\<rparr> in
      case connect_err env databaseUrl of
        Some err \<Rightarrow> (RejectedWith err, proc1)
      | None \<Rightarrow>
          (let proc2 = proc1\<lparr>connection := Open, trace := trace proc1 @ [Listen p]\<rparr> in
           if 65536 \<le> p then (Pending, proc2)
           else
             (case listen_err env p of
                None \<Rightarrow>
                  (Resolved, proc2\<lparr>server := Some \<lparr>port = p, listening = True\<rparr>\<rparr>)
              | Some err \<Rightarrow>
                  (RejectedWith err,
                   proc2\<lparr>server := Some \<lparr>port = p, listening = False\<rparr>,
                         connection := Closing,
                         trace := trace proc2 @ [Disconnect]\<rparr>))))"

section \<open>The specification's wording, for comparison\<close>

text \<open>
  The specification's account of the author string: first name, a space and
  last name, trimmed, a name that is absent counting as the empty string.
\<close>

definition spec_name :: "jsval \<Rightarrow> string \<Rightarrow> js_error + string" where
  "spec_name a k =
     (case get_prop a k of
        Inl e \<Rightarrow> Inl e
      | Inr v \<Rightarrow> (if v = JUndefined then Inr [] else ToString v))"

definition spec_authorString :: "blogpost \<Rightarrow> js_error + string" where
  "spec_authorString d =
     (case spec_name (author d) ''firstName'' of
        Inl e \<Rightarrow> Inl e
      | Inr fs \<Rightarrow>
          (case spec_name (author d) ''lastName'' of
             Inl e \<Rightarrow> Inl e
           | Inr ls \<Rightarrow> Inr (trim (fs @ '' '' @ ls))))"

text \<open>
  The specification's invariant of a document at its creation: a non-empty
  title, a non-empty content and an author object that is not null.
\<close>

fun is_object :: "jsval \<Rightarrow> bool" where
  "is_object (JObj props) = True"
| "is_object v = False"

definition spec_creation_invariant :: "(string \<times> jsval) list \<Rightarrow> bool" where
  "spec_creation_invariant props =
     (non_empty_text (own props ''title'') \<and> non_empty_text (own props ''content'') \<and>
      is_object (own props ''author''))"

section \<open>Sample data\<close>

text \<open>
  The id of a stored post, an id no post has, the stored post, a store that
  is up and a store that has lost its connection.
\<close>

definition sample_id :: string where
  "sample_id = ''5af50c84c082f1e92f83420c''"


definition sample_post :: blogpost where
  "sample_post =
     \<lparr>doc_id = sample_id, title = JStr ''A'', content = JStr ''B'',
      author = JObj [(''firstName'', JStr ''J''), (''lastName'', JStr ''Doe'')],
      created = JStr ''2018-06-01T10:00:00.000Z''\<rparr>"

definition sample_env :: store_env where
  "sample_env =
     \<lparr>outage = (\<lambda>c. None),
      new_doc = (\<lambda>props docs.
        \<lparr>doc_id = ''5af50c84c082f1e92f83420e'', title = own props ''title'',
         content = own props ''content'', author = own props ''author'',
         created = JStr ''2018-06-02T10:00:00.000Z''\<rparr>)\<rparr>"

definition failing_env :: store_env where
  "failing_env = sample_env\<lparr>outage := (\<lambda>c. Some (StoreError ''connection lost''))\<rparr>"

text \<open>
  A start in which the store connects and the port is free, one in which
  the port is already taken, and a process that has not started.
\<close>

definition ready_env :: start_env where
  "ready_env = \<lparr>connect_err = (\<lambda>url. None), listen_err = (\<lambda>p. None)\<rparr>"

definition port_taken_env :: start_env where
  "port_taken_env =
     \<lparr>connect_err = (\<lambda>url. None), listen_err = (\<lambda>p. Some (StartError ''EADDRINUSE''))\<rparr>"

definition idle :: process where
  "idle = \<lparr>connection = Closed, server = None, trace = []\<rparr>"

section \<open>Helper facts\<close>

lemma toUpdate_map:
  "map_of (toUpdate b) = map_of b |` {''title'', ''content'', ''author''}"
  by (rule ext)
     (auto simp: toUpdate_def updateableFields_def has_own_def own_def restrict_map_def
           split: option.splits)

lemma apply_toUpdate:
  "apply_set (toUpdate b) d =
     d\<lparr>title := (if has_own b ''title'' then own b ''title'' else title d),
       content := (if has_own b ''content'' then own b ''content'' else content d),
       author := (if has_own b ''author'' then own b ''author'' else author d)\<rparr>"
  by (simp add: toUpdate_def updateableFields_def apply_set_def set_path_def)





lemma sample_id_not_empty: "sample_id \<noteq> []"
  by (simp add: sample_id_def)


lemma object_id_sample: "object_id sample_id"
  by (simp add: object_id_def sample_id_def is_hex_def)



lemma fault_sample_env: "fault sample_env c = cast_fault c"
  by (simp add: fault_def sample_env_def)

lemma new_doc_sample_env:
  "new_doc sample_env props docs =
     \<lparr>doc_id = ''5af50c84c082f1e92f83420e'', title = own props ''title'',
      content = own props ''content'', author = own props ''author'',
      created = JStr ''2018-06-02T10:00:00.000Z''\<rparr>"
  by (simp add: sample_env_def)

lemma serialize_sample_post:
  "serialize sample_post =
     Inr (JObj [(''id'', JStr sample_id), (''title'', JStr ''A''), (''content'', JStr ''B''),
                (''author'', JStr ''J Doe''), (''created'', JStr ''2018-06-01T10:00:00.000Z'')])"
  by (simp add: sample_post_def serialize_def authorString_def own_def trim_def is_ws_def)

lemma validate_blogpostSchema:
  "validate blogpostSchema d =
     (non_empty_text (title d) \<and> non_empty_text (content d) \<and>
      author d \<noteq> JNull \<and> author d \<noteq> JUndefined)"
  by (simp add: validate_def blogpostSchema_def path_value_def)

section \<open>POST /blog-posts: validation\<close>

text \<open>
  C1. For every POST /blog-posts request whose body is missing at least one
  of the fields title, content, author, the handler answers 400 with the text
  message naming the first missing field in the order title, content, author,
  and it does so without any call to the store.
\<close>

theorem post_missing_field_400:
  assumes "\<not> (has_own (body req) ''title'' \<and> has_own (body req) ''content'' \<and>
              has_own (body req) ''author'')"
  shows "post_blog_posts req =
           Respond \<lparr>status = 400,
                    sent = Text (''Missing `'' @
                      (if \<not> has_own (body req) ''title'' then ''title''
                       else if \<not> has_own (body req) ''content'' then ''content''
                       else ''author'') @ ''` in request body'')\<rparr>
         \<and> store_calls (post_blog_posts req) = []"
  using assms by (auto simp: post_blog_posts_def requiredFields_def)

theorem post_missing_field_400_witness:
  "post_blog_posts \<lparr>params_id = [], body = [(''title'', JStr ''A''), (''author'', JNull)]\<rparr> =
     Respond \<lparr>status = 400, sent = Text ''Missing `content` in request body''\<rparr>
   \<and> store_calls
       (post_blog_posts \<lparr>params_id = [], body = [(''title'', JStr ''A''), (''author'', JNull)]\<rparr>)
     = []"
  using post_missing_field_400
    [of "\<lparr>params_id = [], body = [(''title'', JStr ''A''), (''author'', JNull)]\<rparr>"]
  by (simp add: has_own_def)

text \<open>
  C6, as the specification states it, fails on two counts. The validation
  of the create handler looks at the presence of the three keys only: a body
  whose title and content are empty strings and whose author is \<open>null\<close>
  passes it and goes to the store's create, and it is the schema there that
  refuses the document. And the schema asks of the author that it is not
  \<open>null\<close>, not that it is an object: a post whose author is the string
  \<open>Bob\<close> is persisted.
\<close>

theorem post_empty_values_counterexample:
  "store_calls
     (post_blog_posts
        \<lparr>params_id = [],
         body = [(''title'', JStr []), (''content'', JStr []), (''author'', JNull)]\<rparr>) =
     [Create [(''title'', JStr []), (''content'', JStr []), (''author'', JNull)]]
   \<and> \<not> spec_creation_invariant
         [(''title'', JStr []), (''content'', JStr []), (''author'', JNull)]
   \<and> run (store_step sample_env)
       (post_blog_posts
          \<lparr>params_id = [],
           body = [(''title'', JStr []), (''content'', JStr []), (''author'', JNull)]\<rparr>) [] =
     (Inr \<lparr>status = 500, sent = Json (JObj [(''message'', JStr ''Internal server error'')])\<rparr>,
      [])
   \<and> run (store_step sample_env)
       (post_blog_posts
          \<lparr>params_id = [],
           body = [(''title'', JStr ''A''), (''content'', JStr ''B''),
                   (''author'', JStr ''Bob'')]\<rparr>) [] =
     (Inr \<lparr>status = 201,
           sent = Json (JObj [(''id'', JStr ''5af50c84c082f1e92f83420e''),
                              (''title'', JStr ''A''), (''content'', JStr ''B''),
                              (''author'', JStr ''undefined undefined''),
                              (''created'', JStr ''2018-06-02T10:00:00.000Z'')])\<rparr>,
      [\<lparr>doc_id = ''5af50c84c082f1e92f83420e'', title = JStr ''A'', content = JStr ''B'',
        author = JStr ''Bob'', created = JStr ''2018-06-02T10:00:00.000Z''\<rparr>])
   \<and> \<not> is_object (JStr ''Bob'')"
  by (simp add: post_blog_posts_def requiredFields_def has_own_def own_def
        spec_creation_invariant_def store_step_def fault_sample_env cast_fault_def
        new_doc_sample_env validate_blogpostSchema internal_server_error_def
        serialize_def authorString_def trim_def is_ws_def Let_def)

text \<open>
  C6, amended. Every BlogPost that the create handler persists has, at the
  moment of its creation, a title that is a non-empty string, a content that
  is a non-empty string and an author that is neither \<open>null\<close> nor
  \<open>undefined\<close>. The invariant is enforced at the storage layer, by
  \<open>required: true\<close> of the schema when the store creates the document, and
  not at the HTTP boundary: the validation of the handler enforces only that
  the keys title, content and author are present in the body, and hands
  their values to the store's create as they are.
\<close>

theorem post_persists_valid:
  assumes "run (store_step env) (post_blog_posts req) docs = (res, docs')"
  shows "store_calls (post_blog_posts req) =
           (if has_own (body req) ''title'' \<and> has_own (body req) ''content'' \<and>
               has_own (body req) ''author''
            then [Create [(''title'', own (body req) ''title''),
                          (''content'', own (body req) ''content''),
                          (''author'', own (body req) ''author'')]]
            else [])
       \<and> (docs' = docs \<or>
           (\<exists>d. docs' = docs @ [d] \<and> non_empty_text (title d) \<and> non_empty_text (content d) \<and>
                author d \<noteq> JNull \<and> author d \<noteq> JUndefined))"
proof -
  have calls: "store_calls (post_blog_posts req) =
           (if has_own (body req) ''title'' \<and> has_own (body req) ''content'' \<and>
               has_own (body req) ''author''
            then [Create [(''title'', own (body req) ''title''),
                          (''content'', own (body req) ''content''),
                          (''author'', own (body req) ''author'')]]
            else [])"
    by (simp add: post_blog_posts_def requiredFields_def)
  have step: "ds' = docs \<or>
           (\<exists>d. ds' = docs @ [d] \<and> non_empty_text (title d) \<and> non_empty_text (content d) \<and>
                author d \<noteq> JNull \<and> author d \<noteq> JUndefined)"
    if "store_step env (Create props) docs = (r, ds')" for props r ds'
    using that
    by (auto simp: store_step_def Let_def validate_blogpostSchema
             split: option.splits if_splits)
  from assms have "docs' = docs \<or>
           (\<exists>d. docs' = docs @ [d] \<and> non_empty_text (title d) \<and> non_empty_text (content d) \<and>
                author d \<noteq> JNull \<and> author d \<noteq> JUndefined)"
    by (cases "check_required requiredFields (body req)")
       (auto simp: post_blog_posts_def split: prod.splits dest: step)
  with calls show ?thesis by simp
qed

theorem post_persists_valid_witness:
  "store_calls
     (post_blog_posts
        \<lparr>params_id = [],
         body = [(''title'', JStr ''A''), (''content'', JStr ''B''),
                 (''author'', JObj [(''firstName'', JStr ''J'')]), (''created'', JStr ''x'')]\<rparr>) =
     [Create [(''title'', JStr ''A''), (''content'', JStr ''B''),
              (''author'', JObj [(''firstName'', JStr ''J'')])]]
   \<and> snd (run (store_step sample_env)
       (post_blog_posts
          \<lparr>params_id = [],
           body = [(''title'', JStr ''A''), (''content'', JStr ''B''),
                   (''author'', JObj [(''firstName'', JStr ''J'')]), (''created'', JStr ''x'')]\<rparr>)
       [sample_post]) =
     [sample_post,
      \<lparr>doc_id = ''5af50c84c082f1e92f83420e'', title = JStr ''A'', content = JStr ''B'',
       author = JObj [(''firstName'', JStr ''J'')], created = JStr ''2018-06-02T10:00:00.000Z''\<rparr>]"
proof -
  let ?req = "\<lparr>params_id = [],
           body = [(''title'', JStr ''A''), (''content'', JStr ''B''),
                   (''author'', JObj [(''firstName'', JStr ''J'')]), (''created'', JStr ''x'')]\<rparr>"
  have a: "run (store_step sample_env) (post_blog_posts ?req) [sample_post] =
             (fst (run (store_step sample_env) (post_blog_posts ?req) [sample_post]),
              snd (run (store_step sample_env) (post_blog_posts ?req) [sample_post]))"
    by simp
  have b: "snd (run (store_step sample_env) (post_blog_posts ?req) [sample_post]) =
     [sample_post,
      \<lparr>doc_id = ''5af50c84c082f1e92f83420e'', title = JStr ''A'', content = JStr ''B'',
       author = JObj [(''firstName'', JStr ''J'')], created = JStr ''2018-06-02T10:00:00.000Z''\<rparr>]"
    by (simp add: post_blog_posts_def requiredFields_def has_own_def own_def store_step_def
          fault_sample_env cast_fault_def new_doc_sample_env validate_blogpostSchema
          Let_def)
  from post_persists_valid [OF a]
  have "store_calls (post_blog_posts ?req) =
     [Create [(''title'', JStr ''A''), (''content'', JStr ''B''),
              (''author'', JObj [(''firstName'', JStr ''J'')])]]"
    by (simp add: has_own_def own_def)
  with b show ?thesis by simp
qed

section \<open>serialize\<close>

text \<open>
  C2, as the specification states it, fails: a first or last name that is
  absent is not taken as the empty string, it is printed as the text
  \<open>undefined\<close>; and a record whose author is \<open>null\<close> has no public view at
  all, \<open>serialize\<close> throws.
\<close>

theorem serialize_absent_name_counterexample:
  "serialize \<lparr>doc_id = ''1'', title = JStr ''A'', content = JStr ''B'',
              author = JObj [(''lastName'', JStr ''Doe'')], created = JStr ''t''\<rparr> =
     Inr (JObj [(''id'', JStr ''1''), (''title'', JStr ''A''), (''content'', JStr ''B''),
                (''author'', JStr ''undefined Doe''), (''created'', JStr ''t'')])
   \<and> spec_authorString \<lparr>doc_id = ''1'', title = JStr ''A'', content = JStr ''B'',
              author = JObj [(''lastName'', JStr ''Doe'')], created = JStr ''t''\<rparr> =
     Inr ''Doe''
   \<and> serialize \<lparr>doc_id = ''1'', title = JStr ''A'', content = JStr ''B'',
              author = JNull, created = JStr ''t''\<rparr> = Inl TypeError"
  by (simp add: serialize_def authorString_def spec_authorString_def spec_name_def own_def
        trim_def is_ws_def)

text \<open>
  C2, amended. For every record whose author is neither \<open>null\<close> nor
  \<open>undefined\<close> and whose first and last name convert to strings, \<open>serialize\<close>
  returns exactly the five-field object \<open>{id, title, content, author, created}\<close>
  where \<open>author\<close> is the first name, a space and the last name, trimmed; a
  name that is absent is printed as the text \<open>undefined\<close> in that
  concatenation.
\<close>

theorem serialize_public_view:
  assumes "get_prop (author d) ''firstName'' = Inr f" and "ToString f = Inr fs"
    and "get_prop (author d) ''lastName'' = Inr l" and "ToString l = Inr ls"
  shows "serialize d =
           Inr (JObj [(''id'', JStr (doc_id d)), (''title'', title d), (''content'', content d),
                      (''author'', JStr (trim (fs @ '' '' @ ls))), (''created'', created d)])
         \<and> (f = JUndefined \<longrightarrow> fs = ''undefined'')
         \<and> (l = JUndefined \<longrightarrow> ls = ''undefined'')"
  using assms by (auto simp: serialize_def authorString_def)

theorem serialize_public_view_witness:
  "serialize \<lparr>doc_id = ''7'', title = JStr ''A'', content = JStr ''B'',
              author = JObj [(''firstName'', JStr '' J'')], created = JStr ''t''\<rparr> =
     Inr (JObj [(''id'', JStr ''7''), (''title'', JStr ''A''), (''content'', JStr ''B''),
                (''author'', JStr ''J undefined''), (''created'', JStr ''t'')])"
  using serialize_public_view
    [of "\<lparr>doc_id = ''7'', title = JStr ''A'', content = JStr ''B'',
          author = JObj [(''firstName'', JStr '' J'')], created = JStr ''t''\<rparr>"
        "JStr '' J''" "'' J''" JUndefined "''undefined''"]
  by (simp add: own_def trim_def is_ws_def)

section \<open>PUT /blog-posts/:id\<close>

text \<open>
  C3. For every PUT /blog-posts/:id request with matching path and body ids,
  the update sent to the store sets exactly those of the fields title,
  content, author that are present in the request body, with the values of
  the body; applied to a stored document it leaves every other field, the id
  and \<open>created\<close> among them, as it was; and when the store resolves, the
  response is 204 with an empty body.
\<close>

theorem put_update_frame:
  assumes "ids_match req"
  shows "store_calls (put_blog_posts_id req) =
           [FindByIdAndUpdate (params_id req) (toUpdate (body req))]
       \<and> map_of (toUpdate (body req)) = map_of (body req) |` {''title'', ''content'', ''author''}
       \<and> apply_set (toUpdate (body req)) d =
            d\<lparr>title := (if has_own (body req) ''title'' then own (body req) ''title''
                        else title d),
              content := (if has_own (body req) ''content'' then own (body req) ''content''
                          else content d),
              author := (if has_own (body req) ''author'' then own (body req) ''author''
                         else author d)\<rparr>
       \<and> doc_id (apply_set (toUpdate (body req)) d) = doc_id d
       \<and> created (apply_set (toUpdate (body req)) d) = created d
       \<and> response_to (put_blog_posts_id req) (Doc found) = Inr \<lparr>status = 204, sent = Empty\<rparr>
       \<and> (fault env (FindByIdAndUpdate (params_id req) (toUpdate (body req))) = None \<longrightarrow>
            run (store_step env) (put_blog_posts_id req) docs =
              (Inr \<lparr>status = 204, sent = Empty\<rparr>,
               update_first (params_id req) (apply_set (toUpdate (body req))) docs))"
  using assms
  by (simp add: put_blog_posts_id_def toUpdate_map apply_toUpdate store_step_def)

theorem put_update_frame_witness:
  "store_calls
     (put_blog_posts_id
        \<lparr>params_id = sample_id,
         body = [(''id'', JStr sample_id), (''title'', JStr ''A2''), (''created'', JStr ''x'')]\<rparr>) =
     [FindByIdAndUpdate sample_id [(''title'', JStr ''A2'')]]
   \<and> run (store_step sample_env)
       (put_blog_posts_id
          \<lparr>params_id = sample_id,
           body = [(''id'', JStr sample_id), (''title'', JStr ''A2''), (''created'', JStr ''x'')]\<rparr>)
       [sample_post] =
     (Inr \<lparr>status = 204, sent = Empty\<rparr>, [sample_post\<lparr>title := JStr ''A2''\<rparr>])"
proof -
  let ?req = "\<lparr>params_id = sample_id,
               body = [(''id'', JStr sample_id), (''title'', JStr ''A2''),
                       (''created'', JStr ''x'')]\<rparr>"
  have m: "ids_match ?req"
    by (simp add: ids_match_def own_def strict_eq_str_def sample_id_not_empty)
  have u: "toUpdate [(''id'', JStr sample_id), (''title'', JStr ''A2''), (''created'', JStr ''x'')] =
             [(''title'', JStr ''A2'')]"
    by (simp add: toUpdate_def updateableFields_def has_own_def own_def)
  have f: "fault sample_env (FindByIdAndUpdate (params_id ?req) (toUpdate (body ?req))) = None"
    by (simp add: fault_sample_env cast_fault_def object_id_sample)
  note frame = put_update_frame [OF m, where d = sample_post and env = sample_env
        and docs = "[sample_post]" and found = None]
  from frame have calls: "store_calls (put_blog_posts_id ?req) =
      [FindByIdAndUpdate (params_id ?req) (toUpdate (body ?req))]"
    by (rule conjunct1)
  from frame f have ran: "run (store_step sample_env) (put_blog_posts_id ?req) [sample_post] =
      (Inr \<lparr>status = 204, sent = Empty\<rparr>,
       update_first (params_id ?req) (apply_set (toUpdate (body ?req))) [sample_post])"
    by blast
  show ?thesis
    using calls ran by (simp add: u sample_post_def apply_set_def set_path_def)
qed

text \<open>
  C4 fails on one kind of request. The 400 message is built with the body id
  inside a template literal; when the body id is an object with an own
  \<open>toString\<close> property, that conversion throws, and the handler leaves by the
  exception before it has sent its 400.
\<close>

theorem put_mismatch_throws:
  "\<not> ids_match \<lparr>params_id = ''abc'', body = [(''id'', JObj [(''toString'', JNum ''1'')])]\<rparr>
   \<and> put_blog_posts_id
       \<lparr>params_id = ''abc'', body = [(''id'', JObj [(''toString'', JNum ''1'')])]\<rparr> =
     Throws TypeError"
  by (simp add: put_blog_posts_id_def ids_match_def own_def has_own_def strict_eq_str_def)

text \<open>
  What holds of every PUT whose ids do not match: no store call is made, so
  no store changes, whatever the store; and the response is the 400 with its
  JSON message whenever the body id converts to a string.
\<close>

lemma put_mismatch_no_store:
  assumes "\<not> ids_match req"
  shows "store_calls (put_blog_posts_id req) = []
     \<and> snd (run store (put_blog_posts_id req) st) = st
     \<and> (ToString (own (body req) ''id'') = Inr bid \<longrightarrow>
          put_blog_posts_id req =
            Respond \<lparr>status = 400,
                     sent = Json (JObj [(''message'',
                       JStr (''Request path id ('' @ params_id req @
                             '') and request body id ('' @ bid @ '') must match''))])\<rparr>)"
  using assms
  by (auto simp: put_blog_posts_id_def split: sum.splits)

lemma put_mismatch_no_store_example:
  "put_blog_posts_id \<lparr>params_id = ''1'', body = [(''id'', JStr ''2''), (''title'', JStr ''T'')]\<rparr> =
     Respond \<lparr>status = 400,
              sent = Json (JObj [(''message'',
                JStr ''Request path id (1) and request body id (2) must match'')])\<rparr>
   \<and> snd (run (store_step sample_env)
            (put_blog_posts_id
               \<lparr>params_id = ''1'', body = [(''id'', JStr ''2''), (''title'', JStr ''T'')]\<rparr>)
            [sample_post]) = [sample_post]"
proof -
  let ?req = "\<lparr>params_id = ''1'', body = [(''id'', JStr ''2''), (''title'', JStr ''T'')]\<rparr>"
  have m: "\<not> ids_match ?req"
    by (simp add: ids_match_def own_def strict_eq_str_def)
  show ?thesis
    using put_mismatch_no_store [OF m, where bid = "''2''" and store = "store_step sample_env"
        and st = "[sample_post]"]
    by (simp add: own_def)
qed

section \<open>GET /blog-posts/:id\<close>

text \<open>
  C5, as the specification states it, fails: a record that the lookup finds
  is not always answered with 200. After a PUT has set the author of the
  stored post to \<open>null\<close>, the lookup finds the post, \<open>serialize\<close> throws inside
  the promise chain and the answer is the generic 500; the same happens for
  a found post whose first name is an object with an own \<open>toString\<close>.
\<close>

theorem get_by_id_found_counterexample:
  "run (store_step sample_env)
     (put_blog_posts_id
        \<lparr>params_id = sample_id, body = [(''id'', JStr sample_id), (''author'', JNull)]\<rparr>)
     [sample_post] =
     (Inr \<lparr>status = 204, sent = Empty\<rparr>, [sample_post\<lparr>author := JNull\<rparr>])
   \<and> by_id sample_id [sample_post\<lparr>author := JNull\<rparr>] = Some (sample_post\<lparr>author := JNull\<rparr>)
   \<and> run (store_step sample_env) (get_blog_posts_id \<lparr>params_id = sample_id, body = []\<rparr>)
       [sample_post\<lparr>author := JNull\<rparr>] =
     (Inr \<lparr>status = 500, sent = Json (JObj [(''message'', JStr ''Internal server error'')])\<rparr>,
      [sample_post\<lparr>author := JNull\<rparr>])
   \<and> response_to (get_blog_posts_id \<lparr>params_id = sample_id, body = []\<rparr>)
       (Doc (Some (sample_post
          \<lparr>author := JObj [(''firstName'', JObj [(''toString'', JNum ''1'')]),
                           (''lastName'', JStr ''Doe'')]\<rparr>))) =
     Inr \<lparr>status = 500, sent = Json (JObj [(''message'', JStr ''Internal server error'')])\<rparr>"
  by (simp add: put_blog_posts_id_def get_blog_posts_id_def ids_match_def strict_eq_str_def
        toUpdate_def updateableFields_def has_own_def own_def store_step_def fault_sample_env
        cast_fault_def object_id_sample sample_id_not_empty
        sample_post_def by_id_def apply_set_def set_path_def serialize_def authorString_def
        internal_server_error_def)

text \<open>
  C5, amended. For every GET /blog-posts/:id request the handler looks the
  path id up in the store. If the lookup finds a record and serializing it
  succeeds, the response is 200 with the serialized public view, not wrapped
  in any envelope. If the lookup misses, if the store errors, or if
  serializing the record that was found throws, the response is the same
  generic 500, with not-found not distinguished from a server error.
\<close>

theorem get_by_id_responses:
  "store_calls (get_blog_posts_id req) = [FindById (params_id req)]
   \<and> (serialize d = Inr view \<longrightarrow>
        response_to (get_blog_posts_id req) (Doc (Some d)) =
          Inr \<lparr>status = 200, sent = Json view\<rparr>)
   \<and> (serialize d = Inl e \<longrightarrow>
        response_to (get_blog_posts_id req) (Doc (Some d)) =
          Inr \<lparr>status = 500, sent = Json (JObj [(''message'', JStr ''Internal server error'')])\<rparr>)
   \<and> response_to (get_blog_posts_id req) (Doc None) =
        Inr \<lparr>status = 500, sent = Json (JObj [(''message'', JStr ''Internal server error'')])\<rparr>
   \<and> response_to (get_blog_posts_id req) (Rejected err) =
        Inr \<lparr>status = 500, sent = Json (JObj [(''message'', JStr ''Internal server error'')])\<rparr>"
  by (simp add: get_blog_posts_id_def internal_server_error_def)

theorem get_by_id_responses_witness:
  "response_to (get_blog_posts_id \<lparr>params_id = sample_id, body = []\<rparr>)
     (Doc (Some sample_post)) =
     Inr \<lparr>status = 200,
          sent = Json (JObj [(''id'', JStr sample_id), (''title'', JStr ''A''),
                             (''content'', JStr ''B''), (''author'', JStr ''J Doe''),
                             (''created'', JStr ''2018-06-01T10:00:00.000Z'')])\<rparr>"
  using get_by_id_responses
    [where req = "\<lparr>params_id = sample_id, body = []\<rparr>" and d = sample_post
       and view = "JObj [(''id'', JStr sample_id), (''title'', JStr ''A''),
                         (''content'', JStr ''B''), (''author'', JStr ''J Doe''),
                         (''created'', JStr ''2018-06-01T10:00:00.000Z'')]"]
  by (simp add: serialize_sample_post)

section \<open>GET /blog-posts\<close>



section \<open>Store errors\<close>

text \<open>
  C8. For every route handler and every error the store rejects a call
  with, the response to the client is status 500 with the fixed body
  \<open>{ message: "Internal server error" }\<close>: the response is the same for every
  error, so nothing of the error is in it.
\<close>

theorem store_error_is_500:
  assumes "h \<in> set handlers" and "store_calls (h req) = [c]"
    and "store c st = (Rejected err, st')"
  shows "run store (h req) st =
           (Inr \<lparr>status = 500,
                 sent = Json (JObj [(''message'', JStr ''Internal server error'')])\<rparr>, st')"
  using assms
  by (auto simp: handlers_def routes_def get_blog_posts_def get_blog_posts_id_def
      post_blog_posts_def put_blog_posts_id_def delete_blog_posts_id_def internal_server_error_def
      split: option.splits if_splits sum.splits)

theorem store_error_is_500_witness:
  "run (store_step failing_env) (delete_blog_posts_id \<lparr>params_id = sample_id, body = []\<rparr>)
     [sample_post] =
     (Inr \<lparr>status = 500, sent = Json (JObj [(''message'', JStr ''Internal server error'')])\<rparr>,
      [sample_post])"
proof -
  have a: "delete_blog_posts_id \<in> set handlers"
    by (simp add: handlers_def routes_def)
  have b: "store_calls (delete_blog_posts_id \<lparr>params_id = sample_id, body = []\<rparr>) =
             [FindByIdAndRemove sample_id]"
    by (simp add: delete_blog_posts_id_def)
  have c: "store_step failing_env (FindByIdAndRemove sample_id) [sample_post] =
             (Rejected (StoreError ''connection lost''), [sample_post])"
    by (simp add: store_step_def fault_def failing_env_def)
  show ?thesis
    by (rule store_error_is_500
          [where h = delete_blog_posts_id and req = "\<lparr>params_id = sample_id, body = []\<rparr>"
             and store = "store_step failing_env" and c = "FindByIdAndRemove sample_id"
             and st = "[sample_post]", OF a b c])
qed

section \<open>Targets that do not exist\<close>




section \<open>runServer\<close>

text \<open>
  C9 fails for a port the runtime refuses. With the store connected and
  nothing in the way of the listener, \<open>runServer(databaseUrl, 65536)\<close> neither
  resolves nor rejects: \<open>app.listen\<close> throws in the callback of \<open>connect\<close>,
  the promise stays pending and the store connection stays open, with no
  listener.
\<close>

theorem runServer_invalid_port:
  "runServer ready_env ''mongodb://localhost/blog'' 65536 idle =
     (Pending,
      \<lparr>connection = Open, server = None,
       trace = [Connect ''mongodb://localhost/blog'', Listen 65536]\<rparr>)"
  by (simp add: runServer_def ready_env_def idle_def)

text \<open>
  What holds for every port below 65536: \<open>runServer\<close> resolves exactly when
  both the store connection and the bind of the listener have succeeded, and
  then the connection is open and the server listening. If the store
  connection fails, it rejects with that error and has not tried to bind a
  listener. If the listener fails to bind, it starts the disconnect of the
  store and rejects with that error, with no server listening.
\<close>

lemma runServer_valid_port:
  assumes "runServer env url p proc = (r, proc')" and "p < 65536"
  shows "(r = Resolved \<longleftrightarrow> connect_err env url = None \<and> listen_err env p = None)
   \<and> (r = Resolved \<longrightarrow>
        connection proc' = Open \<and> server proc' = Some \<lparr>port = p, listening = True\<rparr> \<and>
        trace proc' = trace proc @ [Connect url, Listen p])
   \<and> (connect_err env url = Some e \<longrightarrow>
        r = RejectedWith e \<and> trace proc' = trace proc @ [Connect url] \<and>
        server proc' = server proc \<and> connection proc' = connection proc)
   \<and> (connect_err env url = None \<and> listen_err env p = Some e \<longrightarrow>
        r = RejectedWith e \<and> connection proc' = Closing \<and>
        server proc' = Some \<lparr>port = p, listening = False\<rparr> \<and>
        trace proc' = trace proc @ [Connect url, Listen p, Disconnect])"
  using assms by (auto simp: runServer_def Let_def split: option.splits)

lemma runServer_port_taken_example:
  "runServer port_taken_env ''mongodb://localhost/blog'' 8080 idle =
     (RejectedWith (StartError ''EADDRINUSE''),
      \<lparr>connection = Closing, server = Some \<lparr>port = 8080, listening = False\<rparr>,
       trace = [Connect ''mongodb://localhost/blog'', Listen 8080, Disconnect]\<rparr>)"
  by (simp add: runServer_def port_taken_env_def idle_def)

end
